theory Spec2Isabelle
  imports Main "HOL-Library.Word" "HOL-Library.AList"
begin

section \<open>Plugin registry (package registry)\<close>

text \<open>
  A \<^verbatim>\<open>plugins.Plugin\<close> is an interface value. The two type assertions of
  \<^verbatim>\<open>NewPluginRegistry\<close> ask whether the dynamic type of the value also implements
  \<^verbatim>\<open>plugins.RoutePlugin\<close> and \<^verbatim>\<open>plugins.PostTranslationPlugin\<close>. A plugin is
  modelled by its identity and the outcome of these two assertions.
\<close>

record Plugin =
  pluginId :: string
  isRoutePlugin :: bool
  isPostTranslationPlugin :: bool

record PluginRegistry =
  routePlugins :: "Plugin list"
  postTranslationPlugins :: "Plugin list"

definition GetRoutePlugins :: "PluginRegistry \<Rightarrow> Plugin list" where
  "GetRoutePlugins p = routePlugins p"

definition GetPostTranslationPlugins :: "PluginRegistry \<Rightarrow> Plugin list" where
  "GetPostTranslationPlugins p = postTranslationPlugins p"

text \<open>
  The body of the \<^verbatim>\<open>for _, plugin := range allPlugins\<close> loop: the two accumulators
  are threaded through, and the two \<^verbatim>\<open>if\<close> statements are independent.
\<close>

fun registryLoop :: "Plugin list \<Rightarrow> Plugin list \<Rightarrow> Plugin list \<Rightarrow> Plugin list \<times> Plugin list" where
  "registryLoop rs ps [] = (rs, ps)"
| "registryLoop rs ps (plugin # rest) =
     (let rs' = (if isRoutePlugin plugin then rs @ [plugin] else rs);
          ps' = (if isPostTranslationPlugin plugin then ps @ [plugin] else ps)
      in registryLoop rs' ps' rest)"

definition NewPluginRegistry :: "Plugin list \<Rightarrow> PluginRegistry" where
  "NewPluginRegistry allPlugins =
     (case registryLoop [] [] allPlugins of
        (rs, ps) \<Rightarrow> \<lparr>routePlugins = rs, postTranslationPlugins = ps\<rparr>)"


section \<open>Values, errors (package deployer)\<close>

text \<open>
  Go's \<^verbatim>\<open>any\<close> as it occurs in Helm value sets and decoded documents. A
  \<^verbatim>\<open>map[string]any\<close> is an association list whose keys are distinct.
\<close>

datatype any =
    ANil
  | ABool bool
  | ANumber int
  | AString string
  | ASlice "any list"
  | AMap "(string \<times> any) list"

text \<open>
  Go errors. \<^verbatim>\<open>EOF\<close> is \<^verbatim>\<open>io.EOF\<close>; \<^verbatim>\<open>Errorf msg e\<close> is
  \<^verbatim>\<open>fmt.Errorf("msg: %w", e)\<close> with the format's string arguments already
  substituted; \<^verbatim>\<open>ErrorString\<close> is any other error of a collaborator.
\<close>

datatype error =
    EOF
  | ErrorString string
  | Errorf string error


section \<open>Image override\<close>

text \<open>
  \<^verbatim>\<open>strings.Split(s, sep)\<close> for a separator of one byte: the pieces of \<open>s\<close>
  between the occurrences of the separator; no occurrence gives the one piece \<open>s\<close>.
\<close>

fun strings_Split :: "string \<Rightarrow> char \<Rightarrow> string list" where
  "strings_Split [] sep = [[]]"
| "strings_Split (c # cs) sep =
     (if c = sep then [] # strings_Split cs sep
      else (case strings_Split cs sep of
              [] \<Rightarrow> [[c]]
            | p # ps \<Rightarrow> (c # p) # ps))"

text \<open>
  \<^verbatim>\<open>os.Getenv\<close>: the value of the variable, the empty string when it is not set.
\<close>

definition os_Getenv :: "(string \<rightharpoonup> string) \<Rightarrow> string \<Rightarrow> string" where
  "os_Getenv environ key = (case environ key of None \<Rightarrow> [] | Some v \<Rightarrow> v)"

text \<open>
  \<^verbatim>\<open>getDeployerImageValues\<close>. The environment and the name of the variable
  (\<^verbatim>\<open>constants.GlooGatewayDeployerImage\<close>, declared in another package) are
  parameters.
\<close>

definition getDeployerImageValues :: "(string \<rightharpoonup> string) \<Rightarrow> string \<Rightarrow> (string \<times> any) list" where
  "getDeployerImageValues environ GlooGatewayDeployerImage =
     (let image = os_Getenv environ GlooGatewayDeployerImage;
          defaultImageValues = [(''tag'', AString '''')]
      in if image = '''' then defaultImageValues
         else let imageParts = strings_Split image CHR '':''
              in if length imageParts \<noteq> 2 then defaultImageValues
                 else [(''repository'', AString (imageParts ! 0)),
                       (''tag'', AString (imageParts ! 1))])"


section \<open>Port derivation\<close>

text \<open>
  A listener of the Gateway API: \<^verbatim>\<open>Port\<close> is an \<^verbatim>\<open>api.PortNumber\<close>, an
  \<^verbatim>\<open>int32\<close>; \<^verbatim>\<open>Name\<close> is an \<^verbatim>\<open>api.SectionName\<close>, a string.
\<close>

record Listener =
  lName :: string
  lPort :: "32 word"
  lProtocol :: string

record gatewayPort =
  Port :: "16 word"
  Protocol :: string
  Name :: string
  TargetPort :: "16 word"

text \<open>
  \<^verbatim>\<open>slices.IndexFunc\<close>: the first index whose element satisfies the predicate,
  \<open>-1\<close> when there is none.
\<close>

fun slices_IndexFunc :: "'a list \<Rightarrow> ('a \<Rightarrow> bool) \<Rightarrow> int" where
  "slices_IndexFunc [] f = -1"
| "slices_IndexFunc (x # xs) f =
     (if f x then 0
      else (let i = slices_IndexFunc xs f in if i = -1 then -1 else i + 1))"

text \<open>
  The first loop of \<^verbatim>\<open>renderChartToObjects\<close>, with \<^verbatim>\<open>gwPorts\<close> as the
  accumulator. \<^verbatim>\<open>ports.TranslatePort\<close> belongs to another package and is a
  parameter. \<^verbatim>\<open>uint16(l.Port)\<close> keeps the low 16 bits of the \<^verbatim>\<open>int32\<close>.
\<close>

definition listenerPort :: "Listener \<Rightarrow> 16 word" where
  "listenerPort l = ucast (lPort l)"

fun gwPortsLoop :: "(16 word \<Rightarrow> 16 word) \<Rightarrow> gatewayPort list \<Rightarrow> Listener list \<Rightarrow> gatewayPort list" where
  "gwPortsLoop TranslatePort gwPorts [] = gwPorts"
| "gwPortsLoop TranslatePort gwPorts (l # ls) =
     (if slices_IndexFunc gwPorts (\<lambda>p. Port p = listenerPort l) \<noteq> -1
      then gwPortsLoop TranslatePort gwPorts ls
      else gwPortsLoop TranslatePort
             (gwPorts @ [\<lparr>Port = listenerPort l, Protocol = ''TCP'', Name = lName l,
                          TargetPort = TranslatePort (listenerPort l)\<rparr>]) ls)"

definition gwPorts :: "(16 word \<Rightarrow> 16 word) \<Rightarrow> Listener list \<Rightarrow> gatewayPort list" where
  "gwPorts TranslatePort listeners = gwPortsLoop TranslatePort [] listeners"


section \<open>Kubernetes objects\<close>

text \<open>
  \<^verbatim>\<open>schema.GroupVersionKind\<close>, \<^verbatim>\<open>metav1.OwnerReference\<close> and the part of
  \<^verbatim>\<open>api.Gateway\<close> the deployer reads: the type meta (\<^verbatim>\<open>gw.Kind\<close>,
  \<^verbatim>\<open>gw.APIVersion\<close>), the object meta (\<^verbatim>\<open>gw.Name\<close>, \<^verbatim>\<open>gw.Namespace\<close>,
  \<^verbatim>\<open>gw.UID\<close>) and \<^verbatim>\<open>gw.Spec.Listeners\<close>.
\<close>

record GroupVersionKind =
  gvkGroup :: string
  gvkVersion :: string
  gvkKind :: string

record OwnerReference =
  orAPIVersion :: string
  orKind :: string
  orName :: string
  orUID :: string
  orController :: "bool option"
  orBlockOwnerDeletion :: "bool option"

record Gateway =
  gwKind :: string
  gwAPIVersion :: string
  gwName :: string
  gwNamespace :: string
  gwUID :: string
  gwListeners :: "Listener list"

text \<open>
  A \<^verbatim>\<open>client.Object\<close> is an interface over a pointer: either the
  \<^verbatim>\<open>unstructured.Unstructured\<close> a document was decoded into, or an object of a Go
  type registered with the scheme. Both are seen through the accessors the deployer
  calls: \<^verbatim>\<open>GetObjectKind().GroupVersionKind()\<close>, \<^verbatim>\<open>GetName\<close>,
  \<^verbatim>\<open>GetNamespace\<close>/\<^verbatim>\<open>SetNamespace\<close> and \<^verbatim>\<open>SetOwnerReferences\<close>; these are
  the fields of \<open>ObjectHeader\<close>. \<^verbatim>\<open>Object\<close> is the raw field map of an
  \<^verbatim>\<open>Unstructured\<close>.
\<close>

record ObjectHeader =
  objGVK :: GroupVersionKind
  objName :: string
  objNamespace :: string
  objOwnerReferences :: "OwnerReference list"

record Unstructured = ObjectHeader +
  Object :: "(string \<times> any) list"

record Structured = ObjectHeader +
  goType :: string
  content :: "(string \<times> any) list"

datatype client_Object =
    UnstructuredObject Unstructured
  | RealObject Structured

text \<open>
  What \<^verbatim>\<open>scheme.New\<close> returns is a \<^verbatim>\<open>runtime.Object\<close>; the type assertion
  \<^verbatim>\<open>realObj.(client.Object)\<close> succeeds on \<open>ClientObject\<close> only. A
  \<^verbatim>\<open>*runtime.Scheme\<close> is used through \<^verbatim>\<open>New\<close> alone.
\<close>

datatype runtime_Object =
    ClientObject Structured
  | OtherObject string

type_synonym Scheme = "GroupVersionKind \<Rightarrow> error + runtime_Object"

fun GetObjectKind_GroupVersionKind :: "client_Object \<Rightarrow> GroupVersionKind" where
  "GetObjectKind_GroupVersionKind (UnstructuredObject u) = objGVK u"
| "GetObjectKind_GroupVersionKind (RealObject r) = objGVK r"

fun GetName :: "client_Object \<Rightarrow> string" where
  "GetName (UnstructuredObject u) = objName u"
| "GetName (RealObject r) = objName r"

fun GetNamespace :: "client_Object \<Rightarrow> string" where
  "GetNamespace (UnstructuredObject u) = objNamespace u"
| "GetNamespace (RealObject r) = objNamespace r"

fun SetNamespace :: "string \<Rightarrow> client_Object \<Rightarrow> client_Object" where
  "SetNamespace ns (UnstructuredObject u) = UnstructuredObject (u\<lparr>objNamespace := ns\<rparr>)"
| "SetNamespace ns (RealObject r) = RealObject (r\<lparr>objNamespace := ns\<rparr>)"

fun GetOwnerReferences :: "client_Object \<Rightarrow> OwnerReference list" where
  "GetOwnerReferences (UnstructuredObject u) = objOwnerReferences u"
| "GetOwnerReferences (RealObject r) = objOwnerReferences r"

fun SetOwnerReferences :: "OwnerReference list \<Rightarrow> client_Object \<Rightarrow> client_Object" where
  "SetOwnerReferences refs (UnstructuredObject u) =
     UnstructuredObject (u\<lparr>objOwnerReferences := refs\<rparr>)"
| "SetOwnerReferences refs (RealObject r) = RealObject (r\<lparr>objOwnerReferences := refs\<rparr>)"

text \<open>\<^verbatim>\<open>GroupVersionKind.String()\<close>.\<close>

definition GroupVersionKind_String :: "GroupVersionKind \<Rightarrow> string" where
  "GroupVersionKind_String gvk =
     gvkGroup gvk @ ''/'' @ gvkVersion gvk @ '', Kind='' @ gvkKind gvk"


section \<open>The deployer\<close>

text \<open>
  The context argument and the log lines have no part in the results and are left out.
  \<^verbatim>\<open>NewDeployer\<close> and \<^verbatim>\<open>loadFs\<close> build the \<^verbatim>\<open>Deployer\<close> from the embedded
  chart; a \<^verbatim>\<open>Deployer\<close> is taken here as given.
\<close>

record IstioValues =
  SDSEnabled :: bool

record Inputs =
  ControllerName :: string
  Dev :: bool
  inputsPort :: int
  IstioValues :: IstioValues

record 'chart Deployer =
  chart :: 'chart
  scheme :: Scheme
  inputs :: Inputs

text \<open>
  The collaborators of other packages, as parameters:
  \<^item> \<^verbatim>\<open>ports.TranslatePort\<close>;
  \<^item> the process environment, and the constants
    \<^verbatim>\<open>constants.GlooGatewayDeployerImage\<close> and \<^verbatim>\<open>defaults.GlooSystem\<close>;
  \<^item> \<open>helmInstall chart name ns vals\<close>: Helm's client-only
    \<^verbatim>\<open>action.Install\<close> run on an in-memory release store, giving
    \<^verbatim>\<open>release.Manifest\<close> or an error;
  \<^item> \<open>NewYAMLOrJSONDecoder yamlData\<close>: the results of the successive
    \<^verbatim>\<open>Decode\<close> calls of the streaming decoder on the manifest, before it answers
    \<^verbatim>\<open>io.EOF\<close> for good;
  \<^item> \<open>FromUnstructured\<close>: \<^verbatim>\<open>runtime.DefaultUnstructuredConverter\<close>, which fills
    the object given to it or fails.
\<close>

record 'chart Extern =
  TranslatePort :: "16 word \<Rightarrow> 16 word"
  environ :: "string \<rightharpoonup> string"
  GlooGatewayDeployerImage :: string
  GlooSystem :: string
  helmInstall :: "'chart \<Rightarrow> string \<Rightarrow> string \<Rightarrow> (string \<times> any) list \<Rightarrow> error + string"
  NewYAMLOrJSONDecoder :: "string \<Rightarrow> (error + Unstructured) list"
  FromUnstructured :: "(string \<times> any) list \<Rightarrow> Structured \<Rightarrow> error + Structured"

text \<open>
  \<^verbatim>\<open>ConvertYAMLToObjects\<close>. The \<^verbatim>\<open>for\<close> loop runs over the results of
  \<^verbatim>\<open>decoder.Decode\<close>, \<^verbatim>\<open>objs\<close> being the accumulator: the end of the results is
  \<^verbatim>\<open>io.EOF\<close> (\<^verbatim>\<open>break\<close>), any other error is \<^verbatim>\<open>return nil, err\<close>.
\<close>

fun convertLoop ::
  "((string \<times> any) list \<Rightarrow> Structured \<Rightarrow> error + Structured) \<Rightarrow> Scheme \<Rightarrow>
   client_Object list \<Rightarrow> (error + Unstructured) list \<Rightarrow> error + client_Object list" where
  "convertLoop conv sch objs [] = Inr objs"
| "convertLoop conv sch objs (Inl err # rest) = (if err = EOF then Inr objs else Inl err)"
| "convertLoop conv sch objs (Inr obj # rest) =
     (let gvk = objGVK obj in
      case sch gvk of
        Inr realObj \<Rightarrow>
          (case realObj of
             ClientObject realObj' \<Rightarrow>
               (case conv (Object obj) realObj' of
                  Inr converted \<Rightarrow> convertLoop conv sch (objs @ [RealObject converted]) rest
                | Inl _ \<Rightarrow> convertLoop conv sch (objs @ [UnstructuredObject obj]) rest)
           | OtherObject _ \<Rightarrow> convertLoop conv sch (objs @ [UnstructuredObject obj]) rest)
      | Inl _ \<Rightarrow>
          (if length (Object obj) = 0 then convertLoop conv sch objs rest
           else convertLoop conv sch (objs @ [UnstructuredObject obj]) rest))"

definition ConvertYAMLToObjects ::
  "'chart Extern \<Rightarrow> Scheme \<Rightarrow> string \<Rightarrow> error + client_Object list" where
  "ConvertYAMLToObjects ext sch yamlData =
     convertLoop (FromUnstructured ext) sch [] (NewYAMLOrJSONDecoder ext yamlData)"

definition Render ::
  "'chart Extern \<Rightarrow> 'chart Deployer \<Rightarrow> string \<Rightarrow> string \<Rightarrow> (string \<times> any) list \<Rightarrow>
   error + client_Object list" where
  "Render ext d name ns vals =
     (case helmInstall ext (chart d) name ns vals of
        Inl err \<Rightarrow> Inl (Errorf ''failed to render helm chart'' err)
      | Inr manifest \<Rightarrow>
          (case ConvertYAMLToObjects ext (scheme d) manifest of
             Inl err \<Rightarrow> Inl (Errorf ''failed to convert yaml to objects'' err)
           | Inr objs \<Rightarrow> Inr objs))"

text \<open>
  \<^verbatim>\<open>jsonConvert\<close>: the ports through \<^verbatim>\<open>json.Marshal\<close> and
  \<^verbatim>\<open>json.Unmarshal\<close>, which gives one map per port under the lower-case names of the
  struct tags. Marshalling strings and \<^verbatim>\<open>uint16\<close>s does not fail.
\<close>

definition jsonConvert :: "gatewayPort list \<Rightarrow> error + any list" where
  "jsonConvert in_ports =
     Inr (map (\<lambda>p. AMap [(''port'', ANumber (uint (Port p))),
                          (''protocol'', AString (Protocol p)),
                          (''name'', AString (Name p)),
                          (''targetPort'', ANumber (uint (TargetPort p)))]) in_ports)"

definition renderChartToObjects ::
  "'chart Extern \<Rightarrow> 'chart Deployer \<Rightarrow> Gateway \<Rightarrow> error + client_Object list" where
  "renderChartToObjects ext d gw =
     (let ports = gwPorts (TranslatePort ext) (gwListeners gw) in
      case jsonConvert ports of
        Inl err \<Rightarrow> Inl err
      | Inr portsAny \<Rightarrow>
          (let vals =
                 [(''controlPlane'', AMap [(''enabled'', ABool False)]),
                  (''gateway'', AMap
                     [(''enabled'', ABool True),
                      (''name'', AString (gwName gw)),
                      (''gatewayName'', AString (gwName gw)),
                      (''ports'', ASlice portsAny),
                      (''service'', AMap [(''type'', AString ''LoadBalancer'')]),
                      (''istioSDS'', AMap
                         [(''enabled'', ABool (SDSEnabled (IstioValues (inputs d))))]),
                      (''xds'', AMap
                         [(''host'', AString (''gloo.'' @ GlooSystem ext @ ''.svc.'' @
                                               ''cluster.local'')),
                          (''port'', ANumber (inputsPort (inputs d)))]),
                      (''image'', AMap (getDeployerImageValues (environ ext)
                                          (GlooGatewayDeployerImage ext)))])];
               vals' = (if Dev (inputs d) then AList.update ''develop'' (ABool True) vals
                        else vals)
           in case Render ext d (gwName gw) (gwNamespace gw) vals' of
                Inl err \<Rightarrow> Inl err
              | Inr objs \<Rightarrow> Inr (map (SetNamespace (gwNamespace gw)) objs)))"

text \<open>
  \<^verbatim>\<open>GetObjsToDeploy\<close>. The line printed per object goes to standard output and is
  left out.
\<close>

definition GetObjsToDeploy ::
  "'chart Extern \<Rightarrow> 'chart Deployer \<Rightarrow> Gateway \<Rightarrow> error + client_Object list" where
  "GetObjsToDeploy ext d gw =
     (case renderChartToObjects ext d gw of
        Inl err \<Rightarrow> Inl (Errorf ''failed to get objects to deploy'' err)
      | Inr objs \<Rightarrow>
          (let trueVal = True in
           Inr (map (SetOwnerReferences
                       [\<lparr>orAPIVersion = gwAPIVersion gw, orKind = gwKind gw,
                         orName = gwName gw, orUID = gwUID gw,
                         orController = Some trueVal, orBlockOwnerDeletion = None\<rparr>])
                  objs)))"

text \<open>
  \<^verbatim>\<open>GetGvksToWatch\<close>, with \<^verbatim>\<open>ret\<close> as the accumulator of its loop. Every field
  of \<^verbatim>\<open>fakeGw\<close> the literal does not set has Go's zero value.
\<close>

definition slices_Contains :: "'a list \<Rightarrow> 'a \<Rightarrow> bool" where
  "slices_Contains s v = (slices_IndexFunc s (\<lambda>x. x = v) \<ge> 0)"

fun gvksLoop :: "GroupVersionKind list \<Rightarrow> client_Object list \<Rightarrow> GroupVersionKind list" where
  "gvksLoop ret [] = ret"
| "gvksLoop ret (obj # objs) =
     (let gvk = GetObjectKind_GroupVersionKind obj in
      if \<not> slices_Contains ret gvk then gvksLoop (ret @ [gvk]) objs
      else gvksLoop ret objs)"

definition fakeGw :: Gateway where
  "fakeGw = \<lparr>gwKind = '''', gwAPIVersion = '''', gwName = ''default'',
             gwNamespace = ''default'', gwUID = '''', gwListeners = []\<rparr>"

definition GetGvksToWatch ::
  "'chart Extern \<Rightarrow> 'chart Deployer \<Rightarrow> error + GroupVersionKind list" where
  "GetGvksToWatch ext d =
     (case renderChartToObjects ext d fakeGw of
        Inl err \<Rightarrow> Inl err
      | Inr objs \<Rightarrow> Inr (gvksLoop [] objs))"

text \<open>
  \<^verbatim>\<open>DeployObjs\<close>. The cluster behind \<^verbatim>\<open>cli\<close> is a state \<open>'s\<close>;
  \<open>Patch cluster obj opts\<close> is \<^verbatim>\<open>cli.Patch\<close>: the error it returns, if any, and
  the cluster it leaves. The options of the call are \<^verbatim>\<open>client.Apply\<close>,
  \<^verbatim>\<open>client.ForceOwnership\<close> and \<^verbatim>\<open>client.FieldOwner(d.inputs.ControllerName)\<close>.
\<close>

datatype PatchType = Apply | Merge

record PatchOptions =
  patchType :: PatchType
  ForceOwnership :: bool
  FieldOwner :: string

type_synonym 's Client = "'s \<Rightarrow> client_Object \<Rightarrow> PatchOptions \<Rightarrow> error option \<times> 's"

fun DeployObjs ::
  "'chart Deployer \<Rightarrow> client_Object list \<Rightarrow> 's Client \<Rightarrow> 's \<Rightarrow> error option \<times> 's" where
  "DeployObjs d [] Patch cluster = (None, cluster)"
| "DeployObjs d (obj # objs) Patch cluster =
     (case Patch cluster obj
             \<lparr>patchType = Apply, ForceOwnership = True,
              FieldOwner = ControllerName (inputs d)\<rparr> of
        (Some err, cluster') \<Rightarrow>
          (Some (Errorf (''failed to apply object '' @
                         GroupVersionKind_String (GetObjectKind_GroupVersionKind obj) @
                         '' '' @ GetName obj) err),
           cluster')
      | (None, cluster') \<Rightarrow> DeployObjs d objs Patch cluster')"

definition Deploy ::
  "'chart Extern \<Rightarrow> 'chart Deployer \<Rightarrow> Gateway \<Rightarrow> 's Client \<Rightarrow> 's \<Rightarrow> error option \<times> 's" where
  "Deploy ext d gw Patch cluster =
     (case GetObjsToDeploy ext d gw of
        Inl err \<Rightarrow> (Some err, cluster)
      | Inr objs \<Rightarrow> DeployObjs d objs Patch cluster)"


section \<open>Sample inputs\<close>

text \<open>
  A manifest of four documents: a service, an empty document, an object of a kind the
  scheme does not know, and a second service. The template gave documents namespaces
  of its own, and the third one an owner reference.
\<close>

definition sampleService :: Unstructured where
  "sampleService =
     \<lparr>objGVK = \<lparr>gvkGroup = '''', gvkVersion = ''v1'', gvkKind = ''Service''\<rparr>,
      objName = ''gw'', objNamespace = ''kube-system'', objOwnerReferences = [],
      Object = [(''kind'', AString ''Service'')]\<rparr>"

definition sampleEmpty :: Unstructured where
  "sampleEmpty =
     \<lparr>objGVK = \<lparr>gvkGroup = '''', gvkVersion = '''', gvkKind = ''''\<rparr>,
      objName = '''', objNamespace = '''', objOwnerReferences = [], Object = []\<rparr>"

definition sampleWidget :: Unstructured where
  "sampleWidget =
     \<lparr>objGVK = \<lparr>gvkGroup = ''example.io'', gvkVersion = ''v1'', gvkKind = ''Widget''\<rparr>,
      objName = ''w'', objNamespace = ''templated'',
      objOwnerReferences =
        [\<lparr>orAPIVersion = ''v1'', orKind = ''ConfigMap'', orName = ''other'', orUID = ''u0'',
          orController = None, orBlockOwnerDeletion = None\<rparr>],
      Object = [(''kind'', AString ''Widget'')]\<rparr>"

definition sampleService2 :: Unstructured where
  "sampleService2 =
     \<lparr>objGVK = \<lparr>gvkGroup = '''', gvkVersion = ''v1'', gvkKind = ''Service''\<rparr>,
      objName = ''gw-admin'', objNamespace = ''default'', objOwnerReferences = [],
      Object = [(''kind'', AString ''Service''), (''spec'', AMap [])]\<rparr>"

definition sampleScheme :: Scheme where
  "sampleScheme gvk =
     (if gvk = \<lparr>gvkGroup = '''', gvkVersion = ''v1'', gvkKind = ''Service''\<rparr>
      then Inr (ClientObject
                  \<lparr>objGVK = gvk, objName = '''', objNamespace = '''', objOwnerReferences = [],
                   goType = ''*v1.Service'', content = []\<rparr>)
      else Inl (ErrorString ''no kind is registered''))"

definition sampleExtern :: "unit Extern" where
  "sampleExtern =
     \<lparr>TranslatePort = (\<lambda>p. if p < 1024 then p + 8000 else p),
      environ = Map.empty,
      GlooGatewayDeployerImage = ''DEPLOYER_IMAGE'',
      GlooSystem = ''gloo-system'',
      helmInstall = (\<lambda>c name ns vals. Inr ''manifest''),
      NewYAMLOrJSONDecoder =
        (\<lambda>yamlData. if yamlData = ''manifest''
           then [Inr sampleService, Inr sampleEmpty, Inr sampleWidget, Inr sampleService2]
           else if yamlData = ''trimmed''
           then [Inr sampleService, Inr sampleWidget, Inr sampleService2]
           else if yamlData = ''broken''
           then [Inr sampleService, Inl (ErrorString ''yaml: did not find expected key''),
                 Inr sampleWidget]
           else []),
      FromUnstructured = (\<lambda>fields realObj. Inr (realObj\<lparr>content := fields\<rparr>))\<rparr>"

definition sampleDeployer :: "unit Deployer" where
  "sampleDeployer =
     \<lparr>chart = (), scheme = sampleScheme,
      inputs = \<lparr>ControllerName = ''gloo-gateway'', Dev = False, inputsPort = 9977,
                IstioValues = \<lparr>SDSEnabled = False\<rparr>\<rparr>\<rparr>"

definition sampleGateway :: Gateway where
  "sampleGateway =
     \<lparr>gwKind = ''Gateway'', gwAPIVersion = ''gateway.networking.k8s.io/v1'',
      gwName = ''gw'', gwNamespace = ''ns1'', gwUID = ''uid-1'',
      gwListeners = [\<lparr>lName = ''a'', lPort = 80, lProtocol = ''HTTP''\<rparr>,
                     \<lparr>lName = ''b'', lPort = 80, lProtocol = ''HTTP''\<rparr>,
                     \<lparr>lName = ''c'', lPort = 443, lProtocol = ''HTTPS''\<rparr>]\<rparr>"

text \<open>
  A cluster that records the patches it accepted, by object name and field owner, and
  rejects the object named \<open>w\<close>.
\<close>

definition samplePatch :: "(string \<times> string) list Client" where
  "samplePatch cluster obj opts =
     (if GetName obj = ''w'' then (Some (ErrorString ''admission denied''), cluster)
      else (None, cluster @ [(GetName obj, FieldOwner opts)]))"


section \<open>Properties of the plugin registry\<close>

lemma registryLoop_filter:
  "registryLoop rs ps xs = (rs @ filter isRoutePlugin xs, ps @ filter isPostTranslationPlugin xs)"
  by (induction xs arbitrary: rs ps) simp_all

text \<open>
  Claim C5. Whatever the ordered list of plugins, the route plugins of the registry are
  the plugins of the list that pass the route assertion, and its post-translation
  plugins those that pass the post-translation assertion, each in the order of the list:
  a plugin with both capabilities is in both collections, a plugin with neither is in
  none. Construction is a total function with no error result, and the empty list gives
  two empty collections. For A (route only), B (both) and C (neither) the route plugins
  are A, B and the post-translation plugins are B.
\<close>

theorem NewPluginRegistry_classifies:
  "GetRoutePlugins (NewPluginRegistry allPlugins) = filter isRoutePlugin allPlugins \<and>
   GetPostTranslationPlugins (NewPluginRegistry allPlugins) =
     filter isPostTranslationPlugin allPlugins \<and>
   NewPluginRegistry [] = \<lparr>routePlugins = [], postTranslationPlugins = []\<rparr> \<and>
   (let A = \<lparr>pluginId = ''A'', isRoutePlugin = True, isPostTranslationPlugin = False\<rparr>;
        B = \<lparr>pluginId = ''B'', isRoutePlugin = True, isPostTranslationPlugin = True\<rparr>;
        C = \<lparr>pluginId = ''C'', isRoutePlugin = False, isPostTranslationPlugin = False\<rparr>
    in GetRoutePlugins (NewPluginRegistry [A, B, C]) = [A, B] \<and>
       GetPostTranslationPlugins (NewPluginRegistry [A, B, C]) = [B])"
  by (simp add: NewPluginRegistry_def GetRoutePlugins_def GetPostTranslationPlugins_def
      registryLoop_filter Let_def)


section \<open>Properties of the image override\<close>

lemma strings_Split_nonempty: "strings_Split s c \<noteq> []"
  by (induction s) (auto split: list.splits)

lemma length_strings_Split: "length (strings_Split s c) = Suc (count_list s c)"
  by (induction s) (auto split: list.splits simp: strings_Split_nonempty)

lemma strings_Split_no_sep: "c \<notin> set s \<Longrightarrow> strings_Split s c = [s]"
  by (induction s) auto

lemma strings_Split_one:
  "count_list s c = 1 \<Longrightarrow>
   strings_Split s c = [takeWhile (\<lambda>x. x \<noteq> c) s, tl (dropWhile (\<lambda>x. x \<noteq> c) s)]"
proof (induction s)
  case Nil
  then show ?case by simp
next
  case (Cons x xs)
  show ?case
  proof (cases "x = c")
    case True
    with Cons.prems have "count_list xs c = 0" by simp
    then have "c \<notin> set xs" by (simp add: count_list_0_iff)
    with True show ?thesis by (simp add: strings_Split_no_sep)
  next
    case False
    with Cons show ?thesis by simp
  qed
qed

lemma getDeployerImageValues_cases:
  "getDeployerImageValues env key =
     (let image = os_Getenv env key
      in if count_list image CHR '':'' = 1
         then [(''repository'', AString (takeWhile (\<lambda>c. c \<noteq> CHR '':'') image)),
               (''tag'', AString (tl (dropWhile (\<lambda>c. c \<noteq> CHR '':'') image)))]
         else [(''tag'', AString '''')])"
proof (cases "count_list (os_Getenv env key) CHR '':'' = 1")
  case True
  then have "os_Getenv env key \<noteq> []" by auto
  with True show ?thesis
    by (simp add: getDeployerImageValues_def Let_def length_strings_Split strings_Split_one)
next
  case False
  then show ?thesis
    by (simp add: getDeployerImageValues_def Let_def length_strings_Split)
qed

text \<open>
  Claim C6. The value of the override variable (the empty string when the variable is
  not set) is split at its colons. With exactly one colon the result is the repository
  before the colon and the tag after it; with no colon or more than one, and for the
  empty string, the result is the default value map, and no error is returned: the
  function has no error result. So \<open>myrepo:v2\<close> gives repository \<open>myrepo\<close> and tag
  \<open>v2\<close>, while \<open>myrepo\<close>, \<open>a:b:c\<close>, the empty string and an unset variable give the
  defaults.
\<close>

theorem getDeployerImageValues_parse:
  "getDeployerImageValues env key =
     (let image = os_Getenv env key
      in if count_list image CHR '':'' = 1
         then [(''repository'', AString (takeWhile (\<lambda>c. c \<noteq> CHR '':'') image)),
               (''tag'', AString (tl (dropWhile (\<lambda>c. c \<noteq> CHR '':'') image)))]
         else [(''tag'', AString '''')]) \<and>
   getDeployerImageValues [key \<mapsto> ''myrepo:v2''] key =
     [(''repository'', AString ''myrepo''), (''tag'', AString ''v2'')] \<and>
   getDeployerImageValues [key \<mapsto> ''myrepo''] key = [(''tag'', AString '''')] \<and>
   getDeployerImageValues [key \<mapsto> ''a:b:c''] key = [(''tag'', AString '''')] \<and>
   getDeployerImageValues [key \<mapsto> ''''] key = [(''tag'', AString '''')] \<and>
   getDeployerImageValues Map.empty key = [(''tag'', AString '''')]"
  apply (intro conjI)
       apply (rule getDeployerImageValues_cases)
      apply (simp_all add: getDeployerImageValues_cases os_Getenv_def)
  done

text \<open>
  Claim C10. In every fallback case, that is when the value of the variable is empty or
  does not split at its colons into exactly two parts, the returned map is exactly the
  one entry \<open>tag\<close> with the empty string: it has no \<open>repository\<close> key.
\<close>

theorem getDeployerImageValues_fallback:
  "os_Getenv env key = '''' \<or> length (strings_Split (os_Getenv env key) CHR '':'') \<noteq> 2
   \<Longrightarrow> getDeployerImageValues env key = [(''tag'', AString '''')] \<and>
       map_of (getDeployerImageValues env key) ''repository'' = None \<and>
       map_of (getDeployerImageValues env key) ''tag'' = Some (AString '''')"
  by (auto simp: getDeployerImageValues_def Let_def)

theorem getDeployerImageValues_fallback_witness:
  "length (strings_Split (os_Getenv [''IMG'' \<mapsto> ''a:b:c''] ''IMG'') CHR '':'') \<noteq> 2 \<and>
   getDeployerImageValues [''IMG'' \<mapsto> ''a:b:c''] ''IMG'' = [(''tag'', AString '''')] \<and>
   map_of (getDeployerImageValues [''IMG'' \<mapsto> ''a:b:c''] ''IMG'') ''repository'' = None \<and>
   os_Getenv Map.empty ''IMG'' = '''' \<and>
   getDeployerImageValues Map.empty ''IMG'' = [(''tag'', AString '''')] \<and>
   map_of (getDeployerImageValues Map.empty ''IMG'') ''repository'' = None"
proof -
  have h: "length (strings_Split (os_Getenv [''IMG'' \<mapsto> ''a:b:c''] ''IMG'') CHR '':'') \<noteq> 2"
    by (simp add: os_Getenv_def)
  have e: "os_Getenv Map.empty ''IMG'' = ''''"
    by (simp add: os_Getenv_def)
  from getDeployerImageValues_fallback [of "[''IMG'' \<mapsto> ''a:b:c'']" "''IMG''"]
    getDeployerImageValues_fallback [of Map.empty "''IMG''"] h e
  show ?thesis by blast
qed


section \<open>Properties of the port derivation\<close>

lemma slices_IndexFunc_ge: "slices_IndexFunc xs f \<ge> -1"
  by (induction xs) (auto simp: Let_def)

lemma slices_IndexFunc_none: "(slices_IndexFunc xs f = -1) = (\<forall>x\<in>set xs. \<not> f x)"
proof (induction xs)
  case Nil
  then show ?case by simp
next
  case (Cons x xs)
  have "slices_IndexFunc xs f \<ge> -1" by (rule slices_IndexFunc_ge)
  with Cons show ?case by (auto simp: Let_def)
qed

lemma gwPortsLoop_gen:
  "gwPortsLoop tp acc ls =
     acc @ map (\<lambda>l. \<lparr>Port = listenerPort l, Protocol = ''TCP'', Name = lName l,
                          TargetPort = tp (listenerPort l)\<rparr>)
            (map snd (filter (\<lambda>(i, l). listenerPort l \<notin> Port ` set acc \<union>
                                   listenerPort ` set (take (i - n) ls))
                        (enumerate n ls)))"
  (is "_ = acc @ map ?mk (map snd (filter (?keep acc n ls) (enumerate n ls)))")
proof (induction ls arbitrary: acc n)
  case Nil
  then show ?case by simp
next
  case (Cons l ls)
  have tk: "take (i - n) (l # ls) = l # take (i - Suc n) ls"
    if "(i, x) \<in> set (enumerate (Suc n) ls)" for i x
  proof -
    from that have "Suc n \<le> i" by (simp add: in_set_enumerate_eq)
    then obtain k where "i - n = Suc k" and "i - Suc n = k"
      by (metis Suc_diff_le diff_Suc_Suc)
    then show ?thesis by simp
  qed
  have hd_keep: "?keep acc n (l # ls) (n, l) = (listenerPort l \<notin> Port ` set acc)"
    by simp
  show ?case
  proof (cases "listenerPort l \<in> Port ` set acc")
    case True
    then have idx: "slices_IndexFunc acc (\<lambda>p. Port p = listenerPort l) \<noteq> -1"
      by (auto simp: slices_IndexFunc_none)
    have flt: "filter (?keep acc n (l # ls)) (enumerate (Suc n) ls) =
               filter (?keep acc (Suc n) ls) (enumerate (Suc n) ls)"
      using True by (intro filter_cong refl) (auto simp: tk)
    have "gwPortsLoop tp acc (l # ls) = gwPortsLoop tp acc ls"
      using idx by simp
    also have "\<dots> = acc @ map ?mk (map snd (filter (?keep acc (Suc n) ls) (enumerate (Suc n) ls)))"
      by (rule Cons.IH)
    also have "filter (?keep acc (Suc n) ls) (enumerate (Suc n) ls) =
               filter (?keep acc n (l # ls)) (enumerate n (l # ls))"
      unfolding enumerate_simps filter.simps hd_keep flt using True by simp
    finally show ?thesis .
  next
    case False
    then have idx: "slices_IndexFunc acc (\<lambda>p. Port p = listenerPort l) = -1"
      unfolding slices_IndexFunc_none by force
    have flt: "filter (?keep acc n (l # ls)) (enumerate (Suc n) ls) =
               filter (?keep (acc @ [?mk l]) (Suc n) ls) (enumerate (Suc n) ls)"
      by (intro filter_cong refl) (auto simp: tk)
    have "gwPortsLoop tp acc (l # ls) = gwPortsLoop tp (acc @ [?mk l]) ls"
      using idx by simp
    also have "\<dots> = (acc @ [?mk l]) @
        map ?mk (map snd (filter (?keep (acc @ [?mk l]) (Suc n) ls) (enumerate (Suc n) ls)))"
      by (rule Cons.IH)
    also have "\<dots> = acc @ map ?mk
        (l # map snd (filter (?keep acc n (l # ls)) (enumerate (Suc n) ls)))"
      unfolding flt by simp
    also have "\<dots> = acc @ map ?mk (map snd (filter (?keep acc n (l # ls)) (enumerate n (l # ls))))"
      unfolding enumerate_simps filter.simps hd_keep using False by simp
    finally show ?thesis .
  qed
qed

lemma gwPortsLoop_distinct:
  "distinct (map Port acc) \<Longrightarrow> distinct (map Port (gwPortsLoop tp acc ls))"
proof (induction ls arbitrary: acc)
  case Nil
  then show ?case by simp
next
  case (Cons l ls)
  show ?case
  proof (cases "slices_IndexFunc acc (\<lambda>p. Port p = listenerPort l) = -1")
    case True
    then have "listenerPort l \<notin> Port ` set acc"
      by (auto simp: slices_IndexFunc_none)
    with Cons.prems have "distinct (map Port (acc @ [\<lparr>Port = listenerPort l, Protocol = ''TCP'',
        Name = lName l, TargetPort = tp (listenerPort l)\<rparr>]))"
      by simp
    then show ?thesis using True by (simp add: Cons.IH del: map_append)
  next
    case False
    then show ?thesis using Cons by simp
  qed
qed

text \<open>
  For a port from 0 to 65535 the \<^verbatim>\<open>uint16\<close> conversion changes nothing.
\<close>

lemma listenerPort_in_range:
  "uint (lPort l) < 65536 \<Longrightarrow> uint (listenerPort l) = uint (lPort l)"
  by (simp add: listenerPort_def unsigned_ucast_eq take_bit_int_eq_self)

text \<open>
  Claim C1. The port entries are derived from the listeners in their order: a listener
  is kept exactly when no listener before it has the same port number, and each kept
  listener gives one entry with its port, its name, the protocol \<open>TCP\<close> and the
  translated port as target port; so the ports of the entries are distinct. The port
  number of a listener is the source's \<^verbatim>\<open>listenerPort\<close>, the \<^verbatim>\<open>uint16\<close> of
  its \<^verbatim>\<open>Port\<close>. Listeners (80, a), (80, b), (443, c) give the two entries for port 80
  named a and for port 443 named c, in that order.
\<close>

theorem gwPorts_first_occurrence:
  "gwPorts translate listeners =
     map (\<lambda>l. \<lparr>Port = listenerPort l, Protocol = ''TCP'', Name = lName l,
               TargetPort = translate (listenerPort l)\<rparr>)
       (map snd (filter (\<lambda>(i, l). listenerPort l \<notin> listenerPort ` set (take i listeners))
                   (enumerate 0 listeners))) \<and>
   distinct (map Port (gwPorts translate listeners)) \<and>
   gwPorts translate
     [\<lparr>lName = ''a'', lPort = 80, lProtocol = pa\<rparr>,
      \<lparr>lName = ''b'', lPort = 80, lProtocol = pb\<rparr>,
      \<lparr>lName = ''c'', lPort = 443, lProtocol = pc\<rparr>] =
     [\<lparr>Port = 80, Protocol = ''TCP'', Name = ''a'', TargetPort = translate 80\<rparr>,
      \<lparr>Port = 443, Protocol = ''TCP'', Name = ''c'', TargetPort = translate 443\<rparr>]"
proof (intro conjI)
  show "gwPorts translate listeners =
     map (\<lambda>l. \<lparr>Port = listenerPort l, Protocol = ''TCP'', Name = lName l,
               TargetPort = translate (listenerPort l)\<rparr>)
       (map snd (filter (\<lambda>(i, l). listenerPort l \<notin> listenerPort ` set (take i listeners))
                   (enumerate 0 listeners)))"
    using gwPortsLoop_gen [of translate "[]" listeners 0] by (simp add: gwPorts_def)
  show "distinct (map Port (gwPorts translate listeners))"
    by (simp add: gwPorts_def gwPortsLoop_distinct)
  show "gwPorts translate
     [\<lparr>lName = ''a'', lPort = 80, lProtocol = pa\<rparr>,
      \<lparr>lName = ''b'', lPort = 80, lProtocol = pb\<rparr>,
      \<lparr>lName = ''c'', lPort = 443, lProtocol = pc\<rparr>] =
     [\<lparr>Port = 80, Protocol = ''TCP'', Name = ''a'', TargetPort = translate 80\<rparr>,
      \<lparr>Port = 443, Protocol = ''TCP'', Name = ''c'', TargetPort = translate 443\<rparr>]"
    by (simp add: gwPorts_def listenerPort_def)
qed


section \<open>Properties of the rendered objects\<close>

lemmas sample_defs = sampleExtern_def sampleDeployer_def sampleGateway_def sampleScheme_def
  sampleService_def sampleEmpty_def sampleWidget_def sampleService2_def

lemma convert_sample:
  "ConvertYAMLToObjects sampleExtern sampleScheme ''manifest'' =
    Inr [RealObject \<lparr>objGVK = \<lparr>gvkGroup = '''', gvkVersion = ''v1'', gvkKind = ''Service''\<rparr>,
           objName = '''', objNamespace = '''', objOwnerReferences = [],
           goType = ''*v1.Service'', content = [(''kind'', AString ''Service'')]\<rparr>,
         UnstructuredObject sampleWidget,
         RealObject \<lparr>objGVK = \<lparr>gvkGroup = '''', gvkVersion = ''v1'', gvkKind = ''Service''\<rparr>,
           objName = '''', objNamespace = '''', objOwnerReferences = [],
           goType = ''*v1.Service'', content = [(''kind'', AString ''Service''), (''spec'', AMap [])]\<rparr>]"
  by (simp add: ConvertYAMLToObjects_def sample_defs Let_def)

lemma render_sample:
  "renderChartToObjects sampleExtern sampleDeployer sampleGateway =
    Inr [RealObject \<lparr>objGVK = \<lparr>gvkGroup = '''', gvkVersion = ''v1'', gvkKind = ''Service''\<rparr>,
           objName = '''', objNamespace = ''ns1'', objOwnerReferences = [],
           goType = ''*v1.Service'', content = [(''kind'', AString ''Service'')]\<rparr>,
         UnstructuredObject (sampleWidget\<lparr>objNamespace := ''ns1''\<rparr>),
         RealObject \<lparr>objGVK = \<lparr>gvkGroup = '''', gvkVersion = ''v1'', gvkKind = ''Service''\<rparr>,
           objName = '''', objNamespace = ''ns1'', objOwnerReferences = [],
           goType = ''*v1.Service'', content = [(''kind'', AString ''Service''), (''spec'', AMap [])]\<rparr>]"
proof -
  have hi: "helmInstall sampleExtern c name ns vals = Inr ''manifest''" for c name ns vals
    by (simp add: sampleExtern_def)
  have sc: "scheme sampleDeployer = sampleScheme"
    by (simp add: sampleDeployer_def)
  have ns: "gwNamespace sampleGateway = ''ns1''"
    by (simp add: sampleGateway_def)
  have "Render sampleExtern sampleDeployer name ns vals =
          ConvertYAMLToObjects sampleExtern sampleScheme ''manifest''" for name ns vals
    by (simp add: Render_def hi sc convert_sample)
  then show ?thesis
    by (simp add: renderChartToObjects_def jsonConvert_def Let_def convert_sample ns)
qed


lemma GetNamespace_SetNamespace: "GetNamespace (SetNamespace ns obj) = ns"
  by (cases obj) simp_all

lemma GetNamespace_SetOwnerReferences:
  "GetNamespace (SetOwnerReferences refs obj) = GetNamespace obj"
  by (cases obj) simp_all

lemma GetOwnerReferences_SetOwnerReferences:
  "GetOwnerReferences (SetOwnerReferences refs obj) = refs"
  by (cases obj) simp_all

lemma GroupVersionKind_SetNamespace:
  "GetObjectKind_GroupVersionKind (SetNamespace ns obj) = GetObjectKind_GroupVersionKind obj"
  by (cases obj) simp_all

lemma renderChartToObjects_Inr:
  "renderChartToObjects ext d gw = Inr objs \<Longrightarrow>
   \<exists>rendered. objs = map (SetNamespace (gwNamespace gw)) rendered"
  by (auto simp: renderChartToObjects_def jsonConvert_def Let_def split: sum.splits)

lemma GetObjsToDeploy_Inr:
  "GetObjsToDeploy ext d gw = Inr objs \<Longrightarrow>
   \<exists>rendered. renderChartToObjects ext d gw = Inr rendered \<and>
     objs = map (SetOwnerReferences
                   [\<lparr>orAPIVersion = gwAPIVersion gw, orKind = gwKind gw,
                     orName = gwName gw, orUID = gwUID gw,
                     orController = Some True, orBlockOwnerDeletion = None\<rparr>]) rendered"
  by (auto simp: GetObjsToDeploy_def Let_def split: sum.splits)

lemma deploy_sample:
  "\<exists>objs. GetObjsToDeploy sampleExtern sampleDeployer sampleGateway = Inr objs \<and> length objs = 3"
  by (simp add: GetObjsToDeploy_def render_sample)

text \<open>
  Claim C2. Whatever the gateway, the template, the decoder and the scheme: every object
  of a sequence returned by \<^verbatim>\<open>renderChartToObjects\<close>, and so every object of a
  sequence returned by \<^verbatim>\<open>GetObjsToDeploy\<close>, has the namespace of the gateway,
  whatever namespace the rendered document had.
\<close>

theorem renderChartToObjects_namespace:
  "renderChartToObjects ext d gw = Inr objs \<or> GetObjsToDeploy ext d gw = Inr objs \<Longrightarrow>
   \<forall>obj \<in> set objs. GetNamespace obj = gwNamespace gw"
proof
  fix obj
  assume alt: "renderChartToObjects ext d gw = Inr objs \<or> GetObjsToDeploy ext d gw = Inr objs"
    and mem: "obj \<in> set objs"
  from alt show "GetNamespace obj = gwNamespace gw"
  proof
    assume "renderChartToObjects ext d gw = Inr objs"
    then obtain rendered where "objs = map (SetNamespace (gwNamespace gw)) rendered"
      using renderChartToObjects_Inr by blast
    with mem show ?thesis by (auto simp: GetNamespace_SetNamespace)
  next
    assume "GetObjsToDeploy ext d gw = Inr objs"
    then obtain stamped where r: "renderChartToObjects ext d gw = Inr stamped"
      and o: "objs = map (SetOwnerReferences
                   [\<lparr>orAPIVersion = gwAPIVersion gw, orKind = gwKind gw,
                     orName = gwName gw, orUID = gwUID gw,
                     orController = Some True, orBlockOwnerDeletion = None\<rparr>]) stamped"
      using GetObjsToDeploy_Inr by blast
    from r obtain rendered where "stamped = map (SetNamespace (gwNamespace gw)) rendered"
      using renderChartToObjects_Inr by blast
    with o mem show ?thesis
      by (auto simp: GetNamespace_SetNamespace GetNamespace_SetOwnerReferences)
  qed
qed

theorem renderChartToObjects_namespace_witness:
  "(\<exists>objs. renderChartToObjects sampleExtern sampleDeployer sampleGateway = Inr objs \<and>
      length objs = 3 \<and> map GetNamespace objs = [''ns1'', ''ns1'', ''ns1'']) \<and>
   (\<exists>objs. GetObjsToDeploy sampleExtern sampleDeployer sampleGateway = Inr objs \<and>
      length objs = 3 \<and> map GetNamespace objs = [''ns1'', ''ns1'', ''ns1'']) \<and>
   objNamespace sampleService = ''kube-system'' \<and> objNamespace sampleWidget = ''templated'' \<and>
   gwNamespace sampleGateway = ''ns1''"
proof -
  have three: "map GetNamespace objs = [''ns1'', ''ns1'', ''ns1'']"
    if "\<forall>obj \<in> set objs. GetNamespace obj = gwNamespace sampleGateway" and "length objs = 3"
    for objs
  proof -
    from that(1) have "map GetNamespace objs = map (\<lambda>_. ''ns1'') objs"
      by (simp add: sampleGateway_def)
    with that(2) show ?thesis
      by (simp add: map_replicate_const numeral_3_eq_3)
  qed
  obtain objs where r: "renderChartToObjects sampleExtern sampleDeployer sampleGateway = Inr objs"
    and l: "length objs = 3"
    using render_sample by simp
  obtain objs' where r': "GetObjsToDeploy sampleExtern sampleDeployer sampleGateway = Inr objs'"
    and l': "length objs' = 3"
    using deploy_sample by blast
  from r have "\<forall>obj \<in> set objs. GetNamespace obj = gwNamespace sampleGateway"
    using renderChartToObjects_namespace [of sampleExtern sampleDeployer sampleGateway objs]
    by blast
  then have a: "map GetNamespace objs = [''ns1'', ''ns1'', ''ns1'']" using l by (rule three)
  from r' have "\<forall>obj \<in> set objs'. GetNamespace obj = gwNamespace sampleGateway"
    using renderChartToObjects_namespace [of sampleExtern sampleDeployer sampleGateway objs']
    by blast
  then have b: "map GetNamespace objs' = [''ns1'', ''ns1'', ''ns1'']" using l' by (rule three)
  from r l a r' l' b show ?thesis
    by (simp add: sampleService_def sampleWidget_def sampleGateway_def)
qed

text \<open>
  Claim C3. Every object of a sequence returned by \<^verbatim>\<open>GetObjsToDeploy\<close> has
  exactly one owner reference: the one with the kind, the API version, the name and the
  UID of the gateway and the controller flag set to true. Owner references of the
  rendered document are replaced by it.
\<close>

theorem GetObjsToDeploy_owner_reference:
  "GetObjsToDeploy ext d gw = Inr objs \<Longrightarrow>
   \<forall>obj \<in> set objs.
     GetOwnerReferences obj =
       [\<lparr>orAPIVersion = gwAPIVersion gw, orKind = gwKind gw, orName = gwName gw,
         orUID = gwUID gw, orController = Some True, orBlockOwnerDeletion = None\<rparr>]"
proof
  fix obj
  assume g: "GetObjsToDeploy ext d gw = Inr objs" and mem: "obj \<in> set objs"
  from g obtain rendered where
    "objs = map (SetOwnerReferences
                   [\<lparr>orAPIVersion = gwAPIVersion gw, orKind = gwKind gw,
                     orName = gwName gw, orUID = gwUID gw,
                     orController = Some True, orBlockOwnerDeletion = None\<rparr>]) rendered"
    using GetObjsToDeploy_Inr by blast
  with mem show "GetOwnerReferences obj =
       [\<lparr>orAPIVersion = gwAPIVersion gw, orKind = gwKind gw, orName = gwName gw,
         orUID = gwUID gw, orController = Some True, orBlockOwnerDeletion = None\<rparr>]"
    by (auto simp: GetOwnerReferences_SetOwnerReferences)
qed

theorem GetObjsToDeploy_owner_reference_witness:
  "(\<exists>objs. GetObjsToDeploy sampleExtern sampleDeployer sampleGateway = Inr objs \<and>
      length objs = 3 \<and>
      map GetOwnerReferences objs =
        replicate 3 [\<lparr>orAPIVersion = ''gateway.networking.k8s.io/v1'', orKind = ''Gateway'',
                       orName = ''gw'', orUID = ''uid-1'', orController = Some True,
                       orBlockOwnerDeletion = None\<rparr>]) \<and>
   length (objOwnerReferences sampleWidget) = 1"
proof -
  obtain objs where r: "GetObjsToDeploy sampleExtern sampleDeployer sampleGateway = Inr objs"
    and l: "length objs = 3"
    using deploy_sample by blast
  from GetObjsToDeploy_owner_reference [OF r]
  have "map GetOwnerReferences objs =
        map (\<lambda>_. [\<lparr>orAPIVersion = ''gateway.networking.k8s.io/v1'', orKind = ''Gateway'',
                       orName = ''gw'', orUID = ''uid-1'', orController = Some True,
                       orBlockOwnerDeletion = None\<rparr>]) objs"
    by (simp add: sampleGateway_def)
  with l have "map GetOwnerReferences objs =
        replicate 3 [\<lparr>orAPIVersion = ''gateway.networking.k8s.io/v1'', orKind = ''Gateway'',
                       orName = ''gw'', orUID = ''uid-1'', orController = Some True,
                       orBlockOwnerDeletion = None\<rparr>]"
    by (simp add: map_replicate_const)
  with r l show ?thesis by (simp add: sampleWidget_def)
qed


section \<open>Properties of the decoder\<close>

lemma convertLoop_wellformed:
  "convertLoop conv sch objs (map Inr docs) =
     Inr (objs @
          map (\<lambda>d. case sch (objGVK d) of
                      Inr (ClientObject r) \<Rightarrow>
                        (case conv (Object d) r of
                           Inr c \<Rightarrow> RealObject c
                         | Inl _ \<Rightarrow> UnstructuredObject d)
                    | _ \<Rightarrow> UnstructuredObject d)
            (filter (\<lambda>d. Object d \<noteq> [] \<or> \<not> isl (sch (objGVK d))) docs))"
proof (induction docs arbitrary: objs)
  case Nil
  then show ?case by simp
next
  case (Cons d docs)
  show ?case
    by (simp add: Cons.IH Let_def split: sum.splits runtime_Object.splits)
qed

lemma convertLoop_drop_empty:
  "Object doc = [] \<Longrightarrow> isl (sch (objGVK doc)) \<Longrightarrow>
   convertLoop conv sch objs (pre @ Inr doc # post) = convertLoop conv sch objs (pre @ post)"
proof (induction pre arbitrary: objs)
  case Nil
  then show ?case by (auto simp: Let_def isl_def)
next
  case (Cons r pre)
  show ?case
  proof (cases r)
    case (Inl e)
    then show ?thesis by simp
  next
    case (Inr d)
    then show ?thesis
      by (simp add: Cons.IH [OF Cons.prems] Let_def split: sum.splits runtime_Object.splits)
  qed
qed

lemma convertLoop_error:
  "err \<noteq> EOF \<Longrightarrow> convertLoop conv sch objs (map Inr docs @ Inl err # post) = Inl err"
proof (induction docs arbitrary: objs)
  case Nil
  then show ?case by simp
next
  case (Cons d docs)
  then show ?case
    by (simp add: Let_def split: sum.splits runtime_Object.splits)
qed

text \<open>
  Claim C4. When every document of the manifest decodes, \<^verbatim>\<open>ConvertYAMLToObjects\<close>
  returns, in document order, one object per kept document: the typed object when the
  scheme creates an object for the kind of the document, that object is a
  \<^verbatim>\<open>client.Object\<close> and the conversion into it succeeds, the unstructured document
  itself otherwise. A document is left out only if it has no fields and the scheme has
  no type for it; so every document with fields is kept, and one whose kind the scheme
  does not know is kept as it was decoded.
\<close>

theorem ConvertYAMLToObjects_typed_or_generic:
  "NewYAMLOrJSONDecoder ext yamlData = map Inr docs \<Longrightarrow>
   \<exists>objs. ConvertYAMLToObjects ext sch yamlData = Inr objs \<and>
     objs = map (\<lambda>d. case sch (objGVK d) of
                        Inr (ClientObject r) \<Rightarrow>
                          (case FromUnstructured ext (Object d) r of
                             Inr c \<Rightarrow> RealObject c
                           | Inl _ \<Rightarrow> UnstructuredObject d)
                      | _ \<Rightarrow> UnstructuredObject d)
              (filter (\<lambda>d. Object d \<noteq> [] \<or> \<not> isl (sch (objGVK d))) docs) \<and>
     length (filter (\<lambda>d. Object d \<noteq> []) docs) \<le> length objs \<and>
     (\<forall>d \<in> set docs. Object d \<noteq> [] \<and> isl (sch (objGVK d)) \<longrightarrow>
        UnstructuredObject d \<in> set objs)"
proof -
  assume dec: "NewYAMLOrJSONDecoder ext yamlData = map Inr docs"
  let ?rep = "\<lambda>d. case sch (objGVK d) of
                        Inr (ClientObject r) \<Rightarrow>
                          (case FromUnstructured ext (Object d) r of
                             Inr c \<Rightarrow> RealObject c
                           | Inl _ \<Rightarrow> UnstructuredObject d)
                      | _ \<Rightarrow> UnstructuredObject d"
  let ?keep = "\<lambda>d. Object d \<noteq> [] \<or> \<not> isl (sch (objGVK d))"
  let ?objs = "map ?rep (filter ?keep docs)"
  have conv: "ConvertYAMLToObjects ext sch yamlData = Inr ?objs"
    unfolding ConvertYAMLToObjects_def dec
    using convertLoop_wellformed [of "FromUnstructured ext" sch "[]" docs] by simp
  have "length (filter (\<lambda>d. Object d \<noteq> []) docs) \<le> length (filter ?keep docs)"
  proof (induction docs)
    case Nil
    then show ?case by simp
  next
    case (Cons d docs)
    then show ?case by auto
  qed
  then have len: "length (filter (\<lambda>d. Object d \<noteq> []) docs) \<le> length ?objs" by simp
  have gen: "UnstructuredObject d \<in> set ?objs"
    if "d \<in> set docs" and "Object d \<noteq> []" and "isl (sch (objGVK d))" for d
  proof -
    from that have "d \<in> set (filter ?keep docs)" by simp
    moreover from that(3) have "?rep d = UnstructuredObject d"
      by (auto simp: isl_def)
    ultimately show ?thesis by (metis (no_types, lifting) image_eqI set_map)
  qed
  from conv len gen show ?thesis by blast
qed


theorem ConvertYAMLToObjects_typed_or_generic_witness:
  "NewYAMLOrJSONDecoder sampleExtern ''manifest'' =
     map Inr [sampleService, sampleEmpty, sampleWidget, sampleService2] \<and>
   ConvertYAMLToObjects sampleExtern sampleScheme ''manifest'' =
     Inr [RealObject
            \<lparr>objGVK = \<lparr>gvkGroup = '''', gvkVersion = ''v1'', gvkKind = ''Service''\<rparr>,
             objName = '''', objNamespace = '''', objOwnerReferences = [],
             goType = ''*v1.Service'', content = [(''kind'', AString ''Service'')]\<rparr>,
          UnstructuredObject sampleWidget,
          RealObject
            \<lparr>objGVK = \<lparr>gvkGroup = '''', gvkVersion = ''v1'', gvkKind = ''Service''\<rparr>,
             objName = '''', objNamespace = '''', objOwnerReferences = [],
             goType = ''*v1.Service'',
             content = [(''kind'', AString ''Service''), (''spec'', AMap [])]\<rparr>]"
proof -
  have dec: "NewYAMLOrJSONDecoder sampleExtern ''manifest'' =
     map Inr [sampleService, sampleEmpty, sampleWidget, sampleService2]"
    by (simp add: sampleExtern_def)
  have conv: "FromUnstructured sampleExtern fields r = Inr (r\<lparr>content := fields\<rparr>)" for fields r
    by (simp add: sampleExtern_def)
  from ConvertYAMLToObjects_typed_or_generic [OF dec, of sampleScheme]
  have "ConvertYAMLToObjects sampleExtern sampleScheme ''manifest'' =
     Inr [RealObject
            \<lparr>objGVK = \<lparr>gvkGroup = '''', gvkVersion = ''v1'', gvkKind = ''Service''\<rparr>,
             objName = '''', objNamespace = '''', objOwnerReferences = [],
             goType = ''*v1.Service'', content = [(''kind'', AString ''Service'')]\<rparr>,
          UnstructuredObject sampleWidget,
          RealObject
            \<lparr>objGVK = \<lparr>gvkGroup = '''', gvkVersion = ''v1'', gvkKind = ''Service''\<rparr>,
             objName = '''', objNamespace = '''', objOwnerReferences = [],
             goType = ''*v1.Service'',
             content = [(''kind'', AString ''Service''), (''spec'', AMap [])]\<rparr>]"
    by (auto simp: conv sampleScheme_def sampleService_def sampleEmpty_def sampleWidget_def
        sampleService2_def)
  with dec show ?thesis by simp
qed

text \<open>
  Claim C8. A document with no fields, for whose kind the scheme has no type (as for
  the empty kind of such a document), is dropped: alone in a manifest it gives the empty
  sequence and no error, and anywhere in a manifest the result is that of the manifest
  without it. When the decoder fails on a document with an error other than
  \<^verbatim>\<open>io.EOF\<close>, the call returns that error and none of the objects of the documents
  before it.
\<close>

theorem ConvertYAMLToObjects_empty_and_malformed:
  "(NewYAMLOrJSONDecoder ext y1 = [Inr doc] \<and> Object doc = [] \<and> isl (sch (objGVK doc)) \<longrightarrow>
      ConvertYAMLToObjects ext sch y1 = Inr []) \<and>
   (NewYAMLOrJSONDecoder ext y2 = pre @ Inr doc # post \<and>
    NewYAMLOrJSONDecoder ext y3 = pre @ post \<and> Object doc = [] \<and> isl (sch (objGVK doc)) \<longrightarrow>
      ConvertYAMLToObjects ext sch y2 = ConvertYAMLToObjects ext sch y3) \<and>
   (NewYAMLOrJSONDecoder ext y4 = map Inr docs @ Inl err # rest \<and> err \<noteq> EOF \<longrightarrow>
      ConvertYAMLToObjects ext sch y4 = Inl err)"
proof (intro conjI impI)
  assume "NewYAMLOrJSONDecoder ext y1 = [Inr doc] \<and> Object doc = [] \<and> isl (sch (objGVK doc))"
  then show "ConvertYAMLToObjects ext sch y1 = Inr []"
    using convertLoop_drop_empty [of doc sch "FromUnstructured ext" "[]" "[]" "[]"]
    by (simp add: ConvertYAMLToObjects_def)
next
  assume "NewYAMLOrJSONDecoder ext y2 = pre @ Inr doc # post \<and>
    NewYAMLOrJSONDecoder ext y3 = pre @ post \<and> Object doc = [] \<and> isl (sch (objGVK doc))"
  then show "ConvertYAMLToObjects ext sch y2 = ConvertYAMLToObjects ext sch y3"
    by (simp add: ConvertYAMLToObjects_def convertLoop_drop_empty)
next
  assume "NewYAMLOrJSONDecoder ext y4 = map Inr docs @ Inl err # rest \<and> err \<noteq> EOF"
  then show "ConvertYAMLToObjects ext sch y4 = Inl err"
    by (simp add: ConvertYAMLToObjects_def convertLoop_error)
qed

theorem ConvertYAMLToObjects_empty_and_malformed_witness:
  "Object sampleEmpty = [] \<and> isl (sampleScheme (objGVK sampleEmpty)) \<and>
   ConvertYAMLToObjects sampleExtern sampleScheme ''manifest'' =
     ConvertYAMLToObjects sampleExtern sampleScheme ''trimmed'' \<and>
   (\<exists>objs. ConvertYAMLToObjects sampleExtern sampleScheme ''trimmed'' = Inr objs \<and>
            length objs = 3) \<and>
   ConvertYAMLToObjects sampleExtern sampleScheme ''broken'' =
     Inl (ErrorString ''yaml: did not find expected key'')"
proof -
  have e: "Object sampleEmpty = []" "isl (sampleScheme (objGVK sampleEmpty))"
    by (simp_all add: sampleEmpty_def sampleScheme_def)
  have d2: "NewYAMLOrJSONDecoder sampleExtern ''manifest'' =
              [Inr sampleService] @ Inr sampleEmpty # [Inr sampleWidget, Inr sampleService2]"
    and d3: "NewYAMLOrJSONDecoder sampleExtern ''trimmed'' =
              [Inr sampleService] @ [Inr sampleWidget, Inr sampleService2]"
    and d4: "NewYAMLOrJSONDecoder sampleExtern ''broken'' =
              map Inr [sampleService] @
              Inl (ErrorString ''yaml: did not find expected key'') # [Inr sampleWidget]"
    by (simp_all add: sampleExtern_def)
  note inst = ConvertYAMLToObjects_empty_and_malformed
    [of sampleExtern _ sampleEmpty sampleScheme "''manifest''" "[Inr sampleService]"
        "[Inr sampleWidget, Inr sampleService2]" "''trimmed''" "''broken''" "[sampleService]"
        "ErrorString ''yaml: did not find expected key''" "[Inr sampleWidget]"]
  from inst e d2 d3 have a: "ConvertYAMLToObjects sampleExtern sampleScheme ''manifest'' =
     ConvertYAMLToObjects sampleExtern sampleScheme ''trimmed''"
    by blast
  from inst d4 have b: "ConvertYAMLToObjects sampleExtern sampleScheme ''broken'' =
     Inl (ErrorString ''yaml: did not find expected key'')"
    by blast
  have c: "\<exists>objs. ConvertYAMLToObjects sampleExtern sampleScheme ''trimmed'' = Inr objs \<and>
            length objs = 3"
    unfolding a [symmetric] by (simp add: convert_sample)
  from e a b c show ?thesis by blast
qed


section \<open>Properties of the watched kinds\<close>

lemma slices_Contains_iff: "slices_Contains s v = (v \<in> set s)"
proof -
  have "slices_IndexFunc s (\<lambda>x. x = v) \<ge> -1" by (rule slices_IndexFunc_ge)
  moreover have "(slices_IndexFunc s (\<lambda>x. x = v) = -1) = (v \<notin> set s)"
    by (auto simp: slices_IndexFunc_none)
  ultimately show ?thesis unfolding slices_Contains_def by linarith
qed

lemma gvksLoop_snoc:
  "gvksLoop ret (objs @ [obj]) =
     (let r = gvksLoop ret objs; gvk = GetObjectKind_GroupVersionKind obj
      in if gvk \<in> set r then r else r @ [gvk])"
  by (induction objs arbitrary: ret) (simp_all add: Let_def slices_Contains_iff)

lemma gvksLoop_first_occurrences:
  "gvksLoop [] objs = rev (remdups (rev (map GetObjectKind_GroupVersionKind objs)))"
proof (induction objs rule: rev_induct)
  case Nil
  then show ?case by simp
next
  case (snoc obj objs)
  have "set (rev (remdups (rev (map GetObjectKind_GroupVersionKind objs)))) =
        GetObjectKind_GroupVersionKind ` set objs"
    by simp
  with snoc show ?case
    by (simp add: gvksLoop_snoc Let_def)
qed

text \<open>
  Claim C9. \<^verbatim>\<open>GetGvksToWatch\<close> renders the synthetic gateway named \<open>default\<close> in
  the namespace \<open>default\<close> with no listeners, through \<^verbatim>\<open>renderChartToObjects\<close>
  alone: it takes no cluster client, so it applies nothing, and it does not go through
  \<^verbatim>\<open>GetObjsToDeploy\<close>, so no owner reference is set. Its result is the kinds of
  the rendered objects with each kind kept at its first appearance only, and so a
  returned list has no duplicate.
\<close>

theorem GetGvksToWatch_first_occurrences:
  "GetGvksToWatch ext d =
     (case renderChartToObjects ext d
             \<lparr>gwKind = '''', gwAPIVersion = '''', gwName = ''default'',
              gwNamespace = ''default'', gwUID = '''', gwListeners = []\<rparr> of
        Inl err \<Rightarrow> Inl err
      | Inr objs \<Rightarrow> Inr (rev (remdups (rev (map GetObjectKind_GroupVersionKind objs))))) \<and>
   (\<forall>gvks. GetGvksToWatch ext d = Inr gvks \<longrightarrow> distinct gvks)"
proof -
  have eq: "GetGvksToWatch ext d =
     (case renderChartToObjects ext d
             \<lparr>gwKind = '''', gwAPIVersion = '''', gwName = ''default'',
              gwNamespace = ''default'', gwUID = '''', gwListeners = []\<rparr> of
        Inl err \<Rightarrow> Inl err
      | Inr objs \<Rightarrow> Inr (rev (remdups (rev (map GetObjectKind_GroupVersionKind objs)))))"
    by (simp add: GetGvksToWatch_def fakeGw_def gvksLoop_first_occurrences split: sum.splits)
  have "distinct gvks" if "GetGvksToWatch ext d = Inr gvks" for gvks
    using that unfolding eq by (auto split: sum.splits)
  with eq show ?thesis by blast
qed

lemma render_fake_sample:
  "renderChartToObjects sampleExtern sampleDeployer fakeGw =
    Inr [RealObject \<lparr>objGVK = \<lparr>gvkGroup = '''', gvkVersion = ''v1'', gvkKind = ''Service''\<rparr>,
           objName = '''', objNamespace = ''default'', objOwnerReferences = [],
           goType = ''*v1.Service'', content = [(''kind'', AString ''Service'')]\<rparr>,
         UnstructuredObject (sampleWidget\<lparr>objNamespace := ''default''\<rparr>),
         RealObject \<lparr>objGVK = \<lparr>gvkGroup = '''', gvkVersion = ''v1'', gvkKind = ''Service''\<rparr>,
           objName = '''', objNamespace = ''default'', objOwnerReferences = [],
           goType = ''*v1.Service'', content = [(''kind'', AString ''Service''), (''spec'', AMap [])]\<rparr>]"
proof -
  have hi: "helmInstall sampleExtern c name ns vals = Inr ''manifest''" for c name ns vals
    by (simp add: sampleExtern_def)
  have sc: "scheme sampleDeployer = sampleScheme"
    by (simp add: sampleDeployer_def)
  have ns: "gwNamespace fakeGw = ''default''"
    by (simp add: fakeGw_def)
  have "Render sampleExtern sampleDeployer name ns vals =
          ConvertYAMLToObjects sampleExtern sampleScheme ''manifest''" for name ns vals
    by (simp add: Render_def hi sc convert_sample)
  then show ?thesis
    by (simp add: renderChartToObjects_def jsonConvert_def Let_def convert_sample ns)
qed

theorem GetGvksToWatch_first_occurrences_witness:
  "GetGvksToWatch sampleExtern sampleDeployer =
     Inr [\<lparr>gvkGroup = '''', gvkVersion = ''v1'', gvkKind = ''Service''\<rparr>,
          \<lparr>gvkGroup = ''example.io'', gvkVersion = ''v1'', gvkKind = ''Widget''\<rparr>] \<and>
   distinct [\<lparr>gvkGroup = '''', gvkVersion = ''v1'', gvkKind = ''Service''\<rparr>,
          \<lparr>gvkGroup = ''example.io'', gvkVersion = ''v1'', gvkKind = ''Widget''\<rparr>]"
proof -
  have r: "GetGvksToWatch sampleExtern sampleDeployer =
     Inr [\<lparr>gvkGroup = '''', gvkVersion = ''v1'', gvkKind = ''Service''\<rparr>,
          \<lparr>gvkGroup = ''example.io'', gvkVersion = ''v1'', gvkKind = ''Widget''\<rparr>]"
    by (simp add: GetGvksToWatch_def render_fake_sample slices_Contains_def sampleWidget_def)
  with GetGvksToWatch_first_occurrences [of sampleExtern sampleDeployer]
  show ?thesis by blast
qed


section \<open>Properties of the apply step\<close>

lemma DeployObjs_all_succeed:
  "(\<forall>i<length objs.
      fst (Patch (foldl (\<lambda>s obj. snd (Patch s obj opts)) cluster (take i objs)) (objs ! i) opts)
        = None) \<Longrightarrow>
   opts = \<lparr>patchType = Apply, ForceOwnership = True, FieldOwner = ControllerName (inputs d)\<rparr> \<Longrightarrow>
   DeployObjs d objs Patch cluster =
     (None, foldl (\<lambda>s obj. snd (Patch s obj opts)) cluster objs)"
proof (induction objs arbitrary: cluster)
  case Nil
  then show ?case by simp
next
  case (Cons obj objs)
  from Cons.prems(1) have hd: "fst (Patch cluster obj opts) = None"
    by (metis foldl_Nil length_greater_0_conv list.discI nth_Cons_0 take_0)
  have tl: "\<forall>i<length objs.
      fst (Patch (foldl (\<lambda>s obj. snd (Patch s obj opts)) (snd (Patch cluster obj opts))
                    (take i objs)) (objs ! i) opts) = None"
  proof (intro allI impI)
    fix i assume "i < length objs"
    then have "Suc i < length (obj # objs)" by simp
    with Cons.prems(1) show "fst (Patch (foldl (\<lambda>s obj. snd (Patch s obj opts))
        (snd (Patch cluster obj opts)) (take i objs)) (objs ! i) opts) = None"
      by fastforce
  qed
  obtain e s' where p: "Patch cluster obj opts = (e, s')" by (cases "Patch cluster obj opts")
  with hd have e: "e = None" by simp
  from Cons.IH [OF tl Cons.prems(2)] p e Cons.prems(2) show ?case by simp
qed

lemma DeployObjs_first_failure:
  "k < length objs \<Longrightarrow>
   (\<forall>i<k.
      fst (Patch (foldl (\<lambda>s obj. snd (Patch s obj opts)) cluster (take i objs)) (objs ! i) opts)
        = None) \<Longrightarrow>
   fst (Patch (foldl (\<lambda>s obj. snd (Patch s obj opts)) cluster (take k objs)) (objs ! k) opts)
     = Some err \<Longrightarrow>
   opts = \<lparr>patchType = Apply, ForceOwnership = True, FieldOwner = ControllerName (inputs d)\<rparr> \<Longrightarrow>
   DeployObjs d objs Patch cluster =
     (Some (Errorf (''failed to apply object '' @
                    GroupVersionKind_String (GetObjectKind_GroupVersionKind (objs ! k)) @
                    '' '' @ GetName (objs ! k)) err),
      foldl (\<lambda>s obj. snd (Patch s obj opts)) cluster (take (Suc k) objs))"
proof (induction objs arbitrary: cluster k)
  case Nil
  then show ?case by simp
next
  case (Cons obj objs)
  obtain e s' where p: "Patch cluster obj opts = (e, s')" by (cases "Patch cluster obj opts")
  show ?case
  proof (cases k)
    case 0
    with Cons.prems(3) p have "e = Some err" by simp
    with p 0 Cons.prems(4) show ?thesis by simp
  next
    case (Suc j)
    with Cons.prems(1) have j: "j < length objs" by simp
    from Cons.prems(2) Suc have "fst (Patch cluster obj opts) = None"
      by (metis foldl_Nil nth_Cons_0 take_0 zero_less_Suc)
    with p have e: "e = None" by simp
    have pre: "\<forall>i<j. fst (Patch (foldl (\<lambda>s obj. snd (Patch s obj opts)) s' (take i objs))
                          (objs ! i) opts) = None"
    proof (intro allI impI)
      fix i assume "i < j"
      then have "Suc i < k" using Suc by simp
      with Cons.prems(2) p show "fst (Patch (foldl (\<lambda>s obj. snd (Patch s obj opts)) s'
          (take i objs)) (objs ! i) opts) = None"
        by fastforce
    qed
    from Cons.prems(3) Suc p
    have fl: "fst (Patch (foldl (\<lambda>s obj. snd (Patch s obj opts)) s' (take j objs))
                (objs ! j) opts) = Some err"
      by simp
    from Cons.IH [OF j pre fl Cons.prems(4)] p e Suc Cons.prems(4) show ?thesis by simp
  qed
qed


text \<open>
  Claim C7. \<^verbatim>\<open>DeployObjs\<close> patches the objects in list order, each with the apply
  patch, forced ownership and the controller name as field owner. \<open>after n\<close> is the
  cluster once the first \<open>n\<close> objects have been patched in order and \<open>outcome i\<close>
  the error of the patch of object \<open>i\<close> on that cluster. If no patch fails, no error is
  returned and all objects have been patched. If the patch of object \<open>k\<close> is the first
  to fail, the error returned wraps that failure under a message with the kind and the
  name of object \<open>k\<close>; the cluster is the one left by the patches of the objects up to
  \<open>k\<close>, nothing being undone; and the objects after \<open>k\<close> play no part: the outcome
  is that of \<^verbatim>\<open>DeployObjs\<close> on the list cut after object \<open>k\<close>.
\<close>

theorem DeployObjs_stops_at_first_failure:
  "let opts = \<lparr>patchType = Apply, ForceOwnership = True,
               FieldOwner = ControllerName (inputs d)\<rparr>;
       after = (\<lambda>n. foldl (\<lambda>s obj. snd (Patch s obj opts)) cluster (take n objs));
       outcome = (\<lambda>i. fst (Patch (after i) (objs ! i) opts))
   in ((\<forall>i<length objs. outcome i = None) \<longrightarrow>
         DeployObjs d objs Patch cluster = (None, after (length objs))) \<and>
      (\<forall>k err. k < length objs \<and> (\<forall>i<k. outcome i = None) \<and> outcome k = Some err \<longrightarrow>
         DeployObjs d objs Patch cluster =
           (Some (Errorf (''failed to apply object '' @
                          GroupVersionKind_String (GetObjectKind_GroupVersionKind (objs ! k)) @
                          '' '' @ GetName (objs ! k)) err),
            after (Suc k)) \<and>
         DeployObjs d objs Patch cluster = DeployObjs d (take (Suc k) objs) Patch cluster)"
proof -
  define opts where "opts = \<lparr>patchType = Apply, ForceOwnership = True,
               FieldOwner = ControllerName (inputs d)\<rparr>"
  define after where "after = (\<lambda>n. foldl (\<lambda>s obj. snd (Patch s obj opts)) cluster (take n objs))"
  define outcome where "outcome = (\<lambda>i. fst (Patch (after i) (objs ! i) opts))"
  have ok: "DeployObjs d objs Patch cluster = (None, after (length objs))"
    if "\<forall>i<length objs. outcome i = None"
    using DeployObjs_all_succeed [of objs Patch opts cluster d] that
    by (simp add: outcome_def after_def opts_def)
  have bad: "DeployObjs d objs Patch cluster =
           (Some (Errorf (''failed to apply object '' @
                          GroupVersionKind_String (GetObjectKind_GroupVersionKind (objs ! k)) @
                          '' '' @ GetName (objs ! k)) err),
            after (Suc k)) \<and>
         DeployObjs d objs Patch cluster = DeployObjs d (take (Suc k) objs) Patch cluster"
    if k: "k < length objs" and pre: "\<forall>i<k. outcome i = None" and fl: "outcome k = Some err"
    for k err
  proof -
    have full: "DeployObjs d objs Patch cluster =
           (Some (Errorf (''failed to apply object '' @
                          GroupVersionKind_String (GetObjectKind_GroupVersionKind (objs ! k)) @
                          '' '' @ GetName (objs ! k)) err),
            after (Suc k))"
      using DeployObjs_first_failure [of k objs Patch opts cluster err d] k pre fl
      by (simp add: outcome_def after_def opts_def)
    have k': "k < length (take (Suc k) objs)" using k by simp
    have pre': "\<forall>i<k. fst (Patch (foldl (\<lambda>s obj. snd (Patch s obj opts)) cluster
                  (take i (take (Suc k) objs))) (take (Suc k) objs ! i) opts) = None"
      using pre by (simp add: outcome_def after_def min_def)
    have fl': "fst (Patch (foldl (\<lambda>s obj. snd (Patch s obj opts)) cluster
                  (take k (take (Suc k) objs))) (take (Suc k) objs ! k) opts) = Some err"
      using fl by (simp add: outcome_def after_def min_def)
    have "DeployObjs d (take (Suc k) objs) Patch cluster =
           (Some (Errorf (''failed to apply object '' @
                          GroupVersionKind_String
                            (GetObjectKind_GroupVersionKind (take (Suc k) objs ! k)) @
                          '' '' @ GetName (take (Suc k) objs ! k)) err),
            foldl (\<lambda>s obj. snd (Patch s obj opts)) cluster
              (take (Suc k) (take (Suc k) objs)))"
      by (rule DeployObjs_first_failure
            [where Patch = Patch and opts = opts and cluster = cluster and d = d,
             OF k' pre' fl' opts_def])
    then have "DeployObjs d (take (Suc k) objs) Patch cluster =
           (Some (Errorf (''failed to apply object '' @
                          GroupVersionKind_String (GetObjectKind_GroupVersionKind (objs ! k)) @
                          '' '' @ GetName (objs ! k)) err),
            after (Suc k))"
      by (simp add: after_def)
    with full show ?thesis by simp
  qed
  show ?thesis
    unfolding Let_def
    using ok bad unfolding outcome_def after_def opts_def
    by (intro conjI impI allI) blast+
qed

theorem DeployObjs_stops_at_first_failure_witness:
  "DeployObjs sampleDeployer
     [UnstructuredObject sampleService, UnstructuredObject sampleWidget,
      UnstructuredObject sampleService2] samplePatch [] =
     (Some (Errorf ''failed to apply object example.io/v1, Kind=Widget w''
              (ErrorString ''admission denied'')),
      [(''gw'', ''gloo-gateway'')]) \<and>
   DeployObjs sampleDeployer
     [UnstructuredObject sampleService, UnstructuredObject sampleService2] samplePatch [] =
     (None, [(''gw'', ''gloo-gateway''), (''gw-admin'', ''gloo-gateway'')])"
proof -
  let ?objs = "[UnstructuredObject sampleService, UnstructuredObject sampleWidget,
      UnstructuredObject sampleService2]"
  let ?objs2 = "[UnstructuredObject sampleService, UnstructuredObject sampleService2]"
  have names: "objName sampleService = ''gw''" "objName sampleWidget = ''w''"
    "objName sampleService2 = ''gw-admin''"
    "objGVK sampleWidget = \<lparr>gvkGroup = ''example.io'', gvkVersion = ''v1'', gvkKind = ''Widget''\<rparr>"
    "ControllerName (inputs sampleDeployer) = ''gloo-gateway''"
    by (simp_all add: sampleService_def sampleWidget_def sampleService2_def sampleDeployer_def)
  have a: "DeployObjs sampleDeployer ?objs samplePatch [] =
     (Some (Errorf ''failed to apply object example.io/v1, Kind=Widget w''
              (ErrorString ''admission denied'')),
      [(''gw'', ''gloo-gateway'')])"
    using DeployObjs_stops_at_first_failure [of sampleDeployer samplePatch "[]" ?objs]
    unfolding Let_def
    apply (elim conjE allE [of _ "1::nat"] allE [of _ "ErrorString ''admission denied''"])
    apply (simp add: names samplePatch_def GroupVersionKind_String_def less_Suc_eq)
    done
  have b: "DeployObjs sampleDeployer ?objs2 samplePatch [] =
     (None, [(''gw'', ''gloo-gateway''), (''gw-admin'', ''gloo-gateway'')])"
    using DeployObjs_stops_at_first_failure [of sampleDeployer samplePatch "[]" ?objs2]
    unfolding Let_def
    apply (elim conjE)
    apply (simp add: names samplePatch_def less_Suc_eq all_conj_distrib numeral_2_eq_2)
    done
  from a b show ?thesis by simp
qed

end
